theory Spec2Isabelle
  imports Main "HOL-Library.AList"
begin

section \<open>Python values\<close>

text \<open>
  The repository is untyped Python working on JSON-like data: documents of the store,
  provider payloads and directory pages are dicts, lists, strings and numbers.  A dict is
  an association list in insertion order with distinct keys, as Python keeps it.
\<close>

datatype pyval =
    PNone
  | PBool bool
  | PInt int
  | PStr string
  | PList "pyval list"
  | PDict "(string \<times> pyval) list"

type_synonym doc = "(string \<times> pyval) list"

text \<open>Python's truth test, as used by \<^verbatim>\<open>if resp:\<close> and \<^verbatim>\<open>if not conversation:\<close>.\<close>

fun truthy :: "pyval \<Rightarrow> bool" where
  "truthy PNone = False"
| "truthy (PBool b) = b"
| "truthy (PInt i) = (i \<noteq> 0)"
| "truthy (PStr s) = (s \<noteq> [])"
| "truthy (PList xs) = (xs \<noteq> [])"
| "truthy (PDict d) = (d \<noteq> [])"

text \<open>The exceptions that the modelled code can raise or let through.\<close>

datatype error =
    KeyError string
  | TypeError
  | AttributeError
  | CosmosResourceNotFoundError
  | CosmosHttpResponseError
  | RequestException

text \<open>\<^verbatim>\<open>d[k]\<close> on a dict raises KeyError for a missing key; \<^verbatim>\<open>d[k] = v\<close> keeps the
  position of an existing key and appends a new one.\<close>

definition getitem :: "doc \<Rightarrow> string \<Rightarrow> error + pyval" where
  "getitem d k = (case map_of d k of None \<Rightarrow> Inl (KeyError k) | Some v \<Rightarrow> Inr v)"

definition setitem :: "string \<Rightarrow> pyval \<Rightarrow> doc \<Rightarrow> doc" where
  "setitem k v d = AList.update k v d"

section \<open>utils.py: parse_multi_columns\<close>

text \<open>\<^verbatim>\<open>str.split(sep)\<close> for a one-character separator: every occurrence of the separator
  ends a segment, and the empty string gives one empty segment.\<close>

fun split :: "char \<Rightarrow> string \<Rightarrow> string list" where
  "split sep [] = [[]]"
| "split sep (c # cs) =
     (if c = sep then [] # split sep cs
      else (case split sep cs of
              [] \<Rightarrow> [[c]]
            | seg # segs \<Rightarrow> (c # seg) # segs))"

text \<open>\<^verbatim>\<open>sep.join(segments)\<close>.\<close>

fun join :: "string \<Rightarrow> string list \<Rightarrow> string" where
  "join sep [] = []"
| "join sep [seg] = seg"
| "join sep (seg # segs) = seg @ sep @ join sep segs"

definition parse_multi_columns :: "string \<Rightarrow> string list" where
  "parse_multi_columns columns =
     (if CHR ''|'' \<in> set columns then split (CHR ''|'') columns
      else split (CHR '','') columns)"

text \<open>The separator that \<^const>\<open>parse_multi_columns\<close> chooses for an input.\<close>

definition chosen_separator :: "string \<Rightarrow> char" where
  "chosen_separator columns = (if CHR ''|'' \<in> set columns then CHR ''|'' else CHR '','')"

section \<open>utils.py: fetchUserGroups\<close>

text \<open>
  \<^verbatim>\<open>requests.get\<close> is the outside world: a function from the endpoint and the
  Authorization header to either a raised exception or a response.  Of the response the
  code reads \<^verbatim>\<open>status_code\<close> and \<^verbatim>\<open>json()\<close> (which raises on a body that is
  not JSON); \<^verbatim>\<open>r.text\<close> only reaches the log.
\<close>

record response =
  status_code :: int
  json :: "error + pyval"

type_synonym http_get = "string \<Rightarrow> string \<Rightarrow> error + response"

definition graph_endpoint :: string where
  "graph_endpoint = ''https://graph.microsoft.com/v1.0/me/transitiveMemberOf?$select=id''"

text \<open>\<^verbatim>\<open>if nextLink: endpoint = nextLink else: endpoint = ...\<close>\<close>

definition endpoint_of :: "pyval \<Rightarrow> pyval" where
  "endpoint_of nextLink = (if truthy nextLink then nextLink else PStr graph_endpoint)"

text \<open>\<^verbatim>\<open>r['value'].extend(nextLinkData)\<close>: only a list has \<^verbatim>\<open>extend\<close>; it appends the
  elements of a list, the characters of a string and the keys of a dict, and raises
  TypeError on anything that is not iterable.\<close>

fun extend :: "pyval \<Rightarrow> pyval \<Rightarrow> error + pyval" where
  "extend (PList xs) (PList ys) = Inr (PList (xs @ ys))"
| "extend (PList xs) (PStr s) = Inr (PList (xs @ map (\<lambda>c. PStr [c]) s))"
| "extend (PList xs) (PDict d) = Inr (PList (xs @ map (\<lambda>kv. PStr (fst kv)) d))"
| "extend (PList xs) _ = Inl TypeError"
| "extend _ _ = Inl AttributeError"

text \<open>
  The body of the \<^verbatim>\<open>try\<close> block after a 200 response, on the parsed page \<open>r\<close>; \<open>rec\<close>
  is the recursive call.  Only a dict gets through: on any other JSON value either the
  membership test or the subscript that follows it raises TypeError.
\<close>

definition page_groups :: "(pyval \<Rightarrow> pyval) \<Rightarrow> pyval \<Rightarrow> error + pyval" where
  "page_groups rec r =
     (case r of
        PDict d \<Rightarrow>
          (case map_of d ''@odata.nextLink'' of
             Some link \<Rightarrow>
               (let nextLinkData = rec link in
                case getitem d ''value'' of
                  Inl e \<Rightarrow> Inl e
                | Inr v \<Rightarrow> extend v nextLinkData)
           | None \<Rightarrow> getitem d ''value'')
      | _ \<Rightarrow> Inl TypeError)"

text \<open>
  \<^verbatim>\<open>fetchUserGroups(userToken, nextLink=None)\<close>.  The first argument bounds the depth of
  the recursion, as the interpreter's recursion limit does: a directory whose links form
  a cycle makes the source recurse until RecursionError, which is an \<^verbatim>\<open>Exception\<close> and
  is swallowed by the handler like every other one.  Every exception raised inside the
  \<^verbatim>\<open>try\<close> block (a failed request, a body that is not JSON, a missing key) gives \<open>[]\<close>.
  An endpoint that is not a string makes \<^verbatim>\<open>requests.get\<close> raise.
\<close>

fun fetchUserGroups :: "nat \<Rightarrow> http_get \<Rightarrow> string \<Rightarrow> pyval \<Rightarrow> pyval" where
  "fetchUserGroups 0 get userToken nextLink = PList []"
| "fetchUserGroups (Suc depth) get userToken nextLink =
     (case endpoint_of nextLink of
        PStr endpoint \<Rightarrow>
          (case get endpoint (''bearer '' @ userToken) of
             Inl e \<Rightarrow> PList []
           | Inr r \<Rightarrow>
               if status_code r \<noteq> 200 then PList []
               else (case json r of
                       Inl e \<Rightarrow> PList []
                     | Inr page \<Rightarrow>
                         (case page_groups (fetchUserGroups depth get userToken) page of
                            Inl e \<Rightarrow> PList []
                          | Inr groups \<Rightarrow> groups)))
      | _ \<Rightarrow> PList [])"

text \<open>
  A directory that serves, starting from \<open>nextLink\<close>, a chain of pages with the given
  \<^verbatim>\<open>value\<close> lists: each page but the last carries \<^verbatim>\<open>@odata.nextLink\<close>, the last does not.
\<close>

fun serves :: "http_get \<Rightarrow> string \<Rightarrow> pyval \<Rightarrow> pyval list list \<Rightarrow> bool" where
  "serves get userToken nextLink [] = False"
| "serves get userToken nextLink (v # vs) =
     (case endpoint_of nextLink of
        PStr endpoint \<Rightarrow>
          (case get endpoint (''bearer '' @ userToken) of
             Inl e \<Rightarrow> False
           | Inr r \<Rightarrow>
               status_code r = 200 \<and>
               (case json r of
                  Inr (PDict d) \<Rightarrow>
                    map_of d ''value'' = Some (PList v) \<and>
                    (case map_of d ''@odata.nextLink'' of
                       None \<Rightarrow> vs = []
                     | Some link \<Rightarrow> vs \<noteq> [] \<and> serves get userToken link vs)
                | _ \<Rightarrow> False))
      | _ \<Rightarrow> False)"


section \<open>utils.py: format_non_streaming_response\<close>

text \<open>
  The provider's chat-completion object, with the attributes the formatter reads.  A
  choice's \<^verbatim>\<open>message\<close> may be null; a message always has \<^verbatim>\<open>content\<close>, and has the
  attribute \<^verbatim>\<open>context\<close> only when the provider sent one (\<^verbatim>\<open>hasattr\<close>).
\<close>

record message_obj =
  content_attr :: pyval
  context_attr :: "pyval option"

record choice =
  message_attr :: "message_obj option"

record chat_completion =
  id_attr :: pyval
  model :: pyval
  created :: pyval
  object_attr :: pyval
  choices :: "choice list"

text \<open>The loop over \<^verbatim>\<open>message.context["messages"]\<close>: \<^verbatim>\<open>m["role"]\<close> needs a dict with
  that key, and a tool entry is copied with its \<^verbatim>\<open>m["content"]\<close>.\<close>

fun tool_messages :: "pyval list \<Rightarrow> error + pyval list" where
  "tool_messages [] = Inr []"
| "tool_messages (m # ms) =
     (case m of
        PDict d \<Rightarrow>
          (case getitem d ''role'' of
             Inl e \<Rightarrow> Inl e
           | Inr role \<Rightarrow>
               if role = PStr ''tool'' then
                 (case getitem d ''content'' of
                    Inl e \<Rightarrow> Inl e
                  | Inr c \<Rightarrow>
                      (case tool_messages ms of
                         Inl e \<Rightarrow> Inl e
                       | Inr out \<Rightarrow> Inr (PDict [(''role'', PStr ''tool''), (''content'', c)] # out)))
               else tool_messages ms)
      | _ \<Rightarrow> Inl TypeError)"

text \<open>
  The entries appended before the assistant's, by the \<^verbatim>\<open>if\<close>/\<^verbatim>\<open>elif\<close> on the context.
  \<^verbatim>\<open>message.context.get("messages")\<close> needs a dict (AttributeError otherwise) and gives
  None for a missing key; iterating a truthy value that is no list fails on its first
  element (TypeError).  \<open>dumps\<close> is \<^verbatim>\<open>json.dumps\<close>.
\<close>

definition context_messages :: "(pyval \<Rightarrow> string) \<Rightarrow> message_obj \<Rightarrow> error + pyval list" where
  "context_messages dumps msg =
     (case context_attr msg of
        None \<Rightarrow> Inr []
      | Some ctx \<Rightarrow>
          (case ctx of
             PDict d \<Rightarrow>
               (let got = (case map_of d ''messages'' of None \<Rightarrow> PNone | Some v \<Rightarrow> v) in
                if truthy got then
                  (case got of
                     PList ms \<Rightarrow> tool_messages ms
                   | _ \<Rightarrow> Inl TypeError)
                else Inr [PDict [(''role'', PStr ''tool''), (''content'', PStr (dumps ctx))]])
           | _ \<Rightarrow> Inl AttributeError))"

definition format_non_streaming_response ::
  "(pyval \<Rightarrow> string) \<Rightarrow> chat_completion \<Rightarrow> pyval \<Rightarrow> pyval \<Rightarrow> error + pyval" where
  "format_non_streaming_response dumps chatCompletion history_metadata message_uuid =
     (let response_obj = (\<lambda>messages.
            [(''id'', if truthy message_uuid then message_uuid else id_attr chatCompletion),
             (''model'', model chatCompletion),
             (''created'', created chatCompletion),
             (''object'', object_attr chatCompletion),
             (''choices'', PList [PDict [(''messages'', PList messages)]]),
             (''history_metadata'', history_metadata)])
      in case choices chatCompletion of
           [] \<Rightarrow> Inr (PDict [])
         | c # _ \<Rightarrow>
             (case message_attr c of
                None \<Rightarrow> Inr (PDict [])
              | Some msg \<Rightarrow>
                  (case context_messages dumps msg of
                     Inl e \<Rightarrow> Inl e
                   | Inr tools \<Rightarrow>
                       Inr (PDict (response_obj
                              (tools @ [PDict [(''role'', PStr ''assistant''),
                                               (''content'', content_attr msg)]]))))))"

text \<open>The role of an entry of the \<^verbatim>\<open>messages\<close> list.\<close>

definition role_of :: "pyval \<Rightarrow> pyval option" where
  "role_of m = (case m of PDict d \<Rightarrow> map_of d ''role'' | _ \<Rightarrow> None)"

text \<open>
  The shape of the envelope: the six keys in order, and under \<^verbatim>\<open>choices\<close> one element
  whose \<^verbatim>\<open>messages\<close> are some tool entries followed by one assistant entry, the last.
\<close>

definition envelope_ok :: "pyval \<Rightarrow> bool" where
  "envelope_ok r =
     (case r of
        PDict d \<Rightarrow>
          map fst d = [''id'', ''model'', ''created'', ''object'', ''choices'', ''history_metadata''] \<and>
          (case map_of d ''choices'' of
             Some (PList [PDict [(k, PList ms)]]) \<Rightarrow>
               k = ''messages'' \<and> ms \<noteq> [] \<and>
               list_all (\<lambda>m. role_of m = Some (PStr ''tool'')) (butlast ms) \<and>
               role_of (last ms) = Some (PStr ''assistant'')
           | _ \<Rightarrow> False)
      | _ \<Rightarrow> False)"

text \<open>
  A context the formatter can read: a dict whose \<^verbatim>\<open>messages\<close> entry is missing or falsy,
  or a list of dicts that each have a \<^verbatim>\<open>role\<close> and, when the role is tool, a
  \<^verbatim>\<open>content\<close>.
\<close>

definition entry_ok :: "pyval \<Rightarrow> bool" where
  "entry_ok m =
     (case m of
        PDict d \<Rightarrow>
          (case map_of d ''role'' of
             None \<Rightarrow> False
           | Some role \<Rightarrow> role = PStr ''tool'' \<longrightarrow> map_of d ''content'' \<noteq> None)
      | _ \<Rightarrow> False)"

definition context_ok :: "message_obj \<Rightarrow> bool" where
  "context_ok msg =
     (case context_attr msg of
        None \<Rightarrow> True
      | Some (PDict d) \<Rightarrow>
          (case map_of d ''messages'' of
             None \<Rightarrow> True
           | Some (PList ms) \<Rightarrow> list_all entry_ok ms
           | Some v \<Rightarrow> \<not> truthy v)
      | Some _ \<Rightarrow> False)"

section \<open>The container client of the document store\<close>

text \<open>
  The history service talks to the store through \<^verbatim>\<open>self.container_client\<close>, an object of
  the database SDK.  Its four operations are the parameters of the model: each takes the
  state of the outside world and returns a raised exception or a response, with the new
  state.  \<^verbatim>\<open>query_items\<close> stands for the whole iteration of its results.
\<close>

type_synonym parameters = "(string \<times> pyval) list"

record 's container =
  read_item :: "pyval \<Rightarrow> pyval \<Rightarrow> 's \<Rightarrow> (error + doc) \<times> 's"
  upsert_item :: "doc \<Rightarrow> 's \<Rightarrow> (error + doc) \<times> 's"
  delete_item :: "pyval \<Rightarrow> pyval \<Rightarrow> 's \<Rightarrow> (error + pyval) \<times> 's"
  query_items :: "string \<Rightarrow> parameters \<Rightarrow> 's \<Rightarrow> (error + doc list) \<times> 's"

text \<open>\<^verbatim>\<open>CosmosConversationClient\<close>: of the fields set by \<^verbatim>\<open>__init__\<close>, the operations read
  the container client and the feedback switch.\<close>

record 's CosmosConversationClient =
  container_client :: "'s container"
  enable_message_feedback :: bool

section \<open>comosdbservice-comments.py: the history service\<close>

text \<open>
  \<^verbatim>\<open>if resp: return resp else: return False\<close>, the tail shared by \<^verbatim>\<open>create_conversation\<close>
  and \<^verbatim>\<open>upsert_conversation\<close>.
\<close>

definition resp_or_False :: "doc \<Rightarrow> pyval" where
  "resp_or_False resp = (if truthy (PDict resp) then PDict resp else PBool False)"

text \<open>
  \<^verbatim>\<open>create_conversation(user_id, title)\<close>.  \<open>uuid4\<close> is the value of
  \<^verbatim>\<open>str(uuid.uuid4())\<close> and \<open>now1\<close>, \<open>now2\<close> are the two readings of
  \<^verbatim>\<open>datetime.utcnow().isoformat()\<close>: values that the environment supplies.
\<close>

definition conversation_doc :: "string \<Rightarrow> string \<Rightarrow> string \<Rightarrow> pyval \<Rightarrow> pyval \<Rightarrow> doc" where
  "conversation_doc uuid4 now1 now2 user_id title =
     [(''id'', PStr uuid4),
      (''type'', PStr ''conversation''),
      (''createdAt'', PStr now1),
      (''updatedAt'', PStr now2),
      (''userId'', user_id),
      (''title'', title)]"

definition create_conversation ::
  "'s CosmosConversationClient \<Rightarrow> string \<Rightarrow> string \<Rightarrow> string \<Rightarrow> pyval \<Rightarrow> pyval \<Rightarrow> 's
   \<Rightarrow> (error + pyval) \<times> 's" where
  "create_conversation self uuid4 now1 now2 user_id title s =
     (let conversation = conversation_doc uuid4 now1 now2 user_id title in
      case upsert_item (container_client self) conversation s of
        (Inl e, s') \<Rightarrow> (Inl e, s')
      | (Inr resp, s') \<Rightarrow> (Inr (resp_or_False resp), s'))"

definition upsert_conversation ::
  "'s CosmosConversationClient \<Rightarrow> doc \<Rightarrow> 's \<Rightarrow> (error + pyval) \<times> 's" where
  "upsert_conversation self conversation s =
     (case upsert_item (container_client self) conversation s of
        (Inl e, s') \<Rightarrow> (Inl e, s')
      | (Inr resp, s') \<Rightarrow> (Inr (resp_or_False resp), s'))"

definition delete_conversation ::
  "'s CosmosConversationClient \<Rightarrow> pyval \<Rightarrow> pyval \<Rightarrow> 's \<Rightarrow> (error + pyval) \<times> 's" where
  "delete_conversation self user_id conversation_id s =
     (case read_item (container_client self) conversation_id user_id s of
        (Inl e, s1) \<Rightarrow> (Inl e, s1)
      | (Inr conversation, s1) \<Rightarrow>
          if truthy (PDict conversation) then
            delete_item (container_client self) conversation_id user_id s1
          else (Inr (PBool True), s1))"

definition get_messages_query :: string where
  "get_messages_query =
     ''SELECT * FROM c WHERE c.conversationId = @conversationId AND c.type='message' AND c.userId = @userId ORDER BY c.timestamp ASC''"

definition get_messages ::
  "'s CosmosConversationClient \<Rightarrow> pyval \<Rightarrow> pyval \<Rightarrow> 's \<Rightarrow> (error + doc list) \<times> 's" where
  "get_messages self user_id conversation_id s =
     (let parameters = [(''@conversationId'', conversation_id), (''@userId'', user_id)] in
      query_items (container_client self) get_messages_query parameters s)"

text \<open>The loop of \<^verbatim>\<open>delete_messages\<close>: one \<^verbatim>\<open>delete_item\<close> for each message, the
  responses collected in order; an exception ends it.\<close>

fun delete_each ::
  "'s container \<Rightarrow> pyval \<Rightarrow> doc list \<Rightarrow> pyval list \<Rightarrow> 's \<Rightarrow> (error + pyval list) \<times> 's" where
  "delete_each cc user_id [] response_list s = (Inr response_list, s)"
| "delete_each cc user_id (m # ms) response_list s =
     (case getitem m ''id'' of
        Inl e \<Rightarrow> (Inl e, s)
      | Inr i \<Rightarrow>
          (case delete_item cc i user_id s of
             (Inl e, s') \<Rightarrow> (Inl e, s')
           | (Inr resp, s') \<Rightarrow> delete_each cc user_id ms (response_list @ [resp]) s'))"

text \<open>\<^verbatim>\<open>delete_messages\<close> returns the list of responses, and None (it falls off its end)
  when the conversation has no message.\<close>

definition delete_messages ::
  "'s CosmosConversationClient \<Rightarrow> pyval \<Rightarrow> pyval \<Rightarrow> 's \<Rightarrow> (error + pyval) \<times> 's" where
  "delete_messages self conversation_id user_id s =
     (case get_messages self user_id conversation_id s of
        (Inl e, s1) \<Rightarrow> (Inl e, s1)
      | (Inr messages, s1) \<Rightarrow>
          if messages \<noteq> [] then
            (case delete_each (container_client self) user_id messages [] s1 of
               (Inl e, s2) \<Rightarrow> (Inl e, s2)
             | (Inr response_list, s2) \<Rightarrow> (Inr (PList response_list), s2))
          else (Inr PNone, s1))"

text \<open>\<^verbatim>\<open>str(n)\<close> of an integer, as the f-string of \<^verbatim>\<open>get_conversations\<close> formats
  \<^verbatim>\<open>offset\<close> and \<^verbatim>\<open>limit\<close>.\<close>

definition digit :: "nat \<Rightarrow> char" where
  "digit d = ''0123456789'' ! d"

function str_nat :: "nat \<Rightarrow> string" where
  "str_nat n = (if n < 10 then [digit n] else str_nat (n div 10) @ [digit (n mod 10)])"
  by pat_completeness auto
termination
  by (relation "measure id") auto

declare str_nat.simps [simp del]

definition str_int :: "int \<Rightarrow> string" where
  "str_int i = (if i < 0 then ''-'' @ str_nat (nat (- i)) else str_nat (nat i))"

definition get_conversations_base :: "string \<Rightarrow> string" where
  "get_conversations_base sort_order =
     ''SELECT * FROM c where c.userId = @userId and c.type='conversation' order by c.updatedAt '' @
     sort_order"

definition offset_limit_clause :: "int \<Rightarrow> int \<Rightarrow> string" where
  "offset_limit_clause offset limit = '' offset '' @ str_int offset @ '' limit '' @ str_int limit"

definition get_conversations ::
  "'s CosmosConversationClient \<Rightarrow> pyval \<Rightarrow> int option \<Rightarrow> string \<Rightarrow> int \<Rightarrow> 's
   \<Rightarrow> (error + doc list) \<times> 's" where
  "get_conversations self user_id limit sort_order offset s =
     (let parameters = [(''@userId'', user_id)];
          query = get_conversations_base sort_order;
          query = (case limit of
                     Some l \<Rightarrow> query @ offset_limit_clause offset l
                   | None \<Rightarrow> query)
      in query_items (container_client self) query parameters s)"

definition get_conversation_query :: string where
  "get_conversation_query =
     ''SELECT * FROM c where c.id = @conversationId and c.type='conversation' and c.userId = @userId''"

definition get_conversation ::
  "'s CosmosConversationClient \<Rightarrow> pyval \<Rightarrow> pyval \<Rightarrow> 's \<Rightarrow> (error + doc option) \<times> 's" where
  "get_conversation self user_id conversation_id s =
     (let parameters = [(''@conversationId'', conversation_id), (''@userId'', user_id)] in
      case query_items (container_client self) get_conversation_query parameters s of
        (Inl e, s') \<Rightarrow> (Inl e, s')
      | (Inr conversations, s') \<Rightarrow>
          (case conversations of
             [] \<Rightarrow> (Inr None, s')
           | c # _ \<Rightarrow> (Inr (Some c), s')))"

text \<open>The message document of \<^verbatim>\<open>create_message\<close>; \<^verbatim>\<open>input_message['role']\<close> and
  \<^verbatim>\<open>input_message['content']\<close> raise KeyError before anything is sent.\<close>

definition message_doc ::
  "bool \<Rightarrow> string \<Rightarrow> string \<Rightarrow> pyval \<Rightarrow> pyval \<Rightarrow> pyval \<Rightarrow> doc \<Rightarrow> error + doc" where
  "message_doc feedback now1 now2 uuid conversation_id user_id input_message =
     (case getitem input_message ''role'' of
        Inl e \<Rightarrow> Inl e
      | Inr role \<Rightarrow>
          (case getitem input_message ''content'' of
             Inl e \<Rightarrow> Inl e
           | Inr content \<Rightarrow>
               (let message =
                      [(''id'', uuid),
                       (''type'', PStr ''message''),
                       (''userId'', user_id),
                       (''createdAt'', PStr now1),
                       (''updatedAt'', PStr now2),
                       (''conversationId'', conversation_id),
                       (''role'', role),
                       (''content'', content)]
                in Inr (if feedback then setitem ''feedback'' (PStr []) message else message))))"

definition create_message ::
  "'s CosmosConversationClient \<Rightarrow> string \<Rightarrow> string \<Rightarrow> pyval \<Rightarrow> pyval \<Rightarrow> pyval \<Rightarrow> doc \<Rightarrow> 's
   \<Rightarrow> (error + pyval) \<times> 's" where
  "create_message self now1 now2 uuid conversation_id user_id input_message s =
     (case message_doc (enable_message_feedback self) now1 now2 uuid conversation_id user_id
             input_message of
        Inl e \<Rightarrow> (Inl e, s)
      | Inr message \<Rightarrow>
          (case upsert_item (container_client self) message s of
             (Inl e, s1) \<Rightarrow> (Inl e, s1)
           | (Inr resp, s1) \<Rightarrow>
               if truthy (PDict resp) then
                 (case get_conversation self user_id conversation_id s1 of
                    (Inl e, s2) \<Rightarrow> (Inl e, s2)
                  | (Inr found, s2) \<Rightarrow>
                      (case found of
                         None \<Rightarrow> (Inr (PStr ''Conversation not found''), s2)
                       | Some conversation \<Rightarrow>
                           if \<not> truthy (PDict conversation) then
                             (Inr (PStr ''Conversation not found''), s2)
                           else
                             (case getitem message ''createdAt'' of
                                Inl e \<Rightarrow> (Inl e, s2)
                              | Inr createdAt \<Rightarrow>
                                  (case upsert_conversation self
                                          (setitem ''updatedAt'' createdAt conversation) s2 of
                                     (Inl e, s3) \<Rightarrow> (Inl e, s3)
                                   | (Inr _, s3) \<Rightarrow> (Inr (PDict resp), s3)))))
               else (Inr (PBool False), s1)))"

section \<open>The document store\<close>

text \<open>
  Modelled from the spec: the document store is an external service, reached only through
  the container client.  The spec gives its contract: point read, upsert and delete by
  (id, partition key), the partition key of a document being its \<^verbatim>\<open>userId\<close>; upsert is
  insert-or-update by document id; a query reads documents and changes none.  The store
  below keeps the documents under (partition key, id) and records every request sent to
  it.  The query engine of the service is left open: it is the parameter \<open>eng\<close>, from the
  query text, its parameters and the stored documents to the result.
\<close>

datatype request =
    ReadItem pyval pyval
  | UpsertItem doc
  | DeleteItem pyval pyval
  | QueryItems string parameters

record store =
  items :: "((pyval \<times> pyval) \<times> doc) list"
  sent :: "request list"

type_synonym engine = "string \<Rightarrow> parameters \<Rightarrow> doc list \<Rightarrow> error + doc list"

definition doc_key :: "doc \<Rightarrow> (pyval \<times> pyval) option" where
  "doc_key d =
     (case (map_of d ''userId'', map_of d ''id'') of
        (Some pk, Some i) \<Rightarrow> Some (pk, i)
      | _ \<Rightarrow> None)"

definition store_read_item :: "pyval \<Rightarrow> pyval \<Rightarrow> store \<Rightarrow> (error + doc) \<times> store" where
  "store_read_item item partition_key w =
     (let w' = w\<lparr>sent := sent w @ [ReadItem item partition_key]\<rparr> in
      case map_of (items w) (partition_key, item) of
        None \<Rightarrow> (Inl CosmosResourceNotFoundError, w')
      | Some d \<Rightarrow> (Inr d, w'))"

definition store_upsert_item :: "doc \<Rightarrow> store \<Rightarrow> (error + doc) \<times> store" where
  "store_upsert_item d w =
     (let w' = w\<lparr>sent := sent w @ [UpsertItem d]\<rparr> in
      case doc_key d of
        None \<Rightarrow> (Inl CosmosHttpResponseError, w')
      | Some k \<Rightarrow> (Inr d, w'\<lparr>items := AList.update k d (items w)\<rparr>))"

definition store_delete_item :: "pyval \<Rightarrow> pyval \<Rightarrow> store \<Rightarrow> (error + pyval) \<times> store" where
  "store_delete_item item partition_key w =
     (let w' = w\<lparr>sent := sent w @ [DeleteItem item partition_key]\<rparr> in
      case map_of (items w) (partition_key, item) of
        None \<Rightarrow> (Inl CosmosResourceNotFoundError, w')
      | Some d \<Rightarrow> (Inr PNone, w'\<lparr>items := AList.delete (partition_key, item) (items w)\<rparr>))"

definition store_query_items ::
  "engine \<Rightarrow> string \<Rightarrow> parameters \<Rightarrow> store \<Rightarrow> (error + doc list) \<times> store" where
  "store_query_items eng query ps w =
     (eng query ps (map snd (items w)), w\<lparr>sent := sent w @ [QueryItems query ps]\<rparr>)"

definition cosmos :: "engine \<Rightarrow> store container" where
  "cosmos eng =
     \<lparr>read_item = store_read_item,
      upsert_item = store_upsert_item,
      delete_item = store_delete_item,
      query_items = store_query_items eng\<rparr>"

definition client :: "engine \<Rightarrow> bool \<Rightarrow> store CosmosConversationClient" where
  "client eng feedback = \<lparr>container_client = cosmos eng, enable_message_feedback = feedback\<rparr>"

text \<open>Every document is stored under its own (\<^verbatim>\<open>userId\<close>, \<^verbatim>\<open>id\<close>): the invariant that
  upsert keeps.\<close>

definition keyed_by_id :: "store \<Rightarrow> bool" where
  "keyed_by_id w = list_all (\<lambda>kd. doc_key (snd kd) = Some (fst kd)) (items w)"

text \<open>The message documents of a conversation among some documents.\<close>

definition conversation_messages :: "pyval \<Rightarrow> doc list \<Rightarrow> doc list" where
  "conversation_messages conversation_id ds =
     filter (\<lambda>d. map_of d ''type'' = Some (PStr ''message'') \<and>
                 map_of d ''conversationId'' = Some conversation_id) ds"

text \<open>
  An engine that answers the point query of \<^const>\<open>get_conversation\<close>, whose WHERE clause
  is a conjunction of three equalities, and refuses every other query.
\<close>

definition lookup_engine :: engine where
  "lookup_engine query ps ds =
     (if query = get_conversation_query then
        (case (map_of ps ''@conversationId'', map_of ps ''@userId'') of
           (Some c, Some u) \<Rightarrow>
             Inr (filter (\<lambda>d. map_of d ''id'' = Some c \<and>
                              map_of d ''type'' = Some (PStr ''conversation'') \<and>
                              map_of d ''userId'' = Some u) ds)
         | _ \<Rightarrow> Inl CosmosHttpResponseError)
      else Inl CosmosHttpResponseError)"



section \<open>Example data\<close>

definition example_conversation :: doc where
  "example_conversation =
     [(''id'', PStr ''c1''), (''type'', PStr ''conversation''),
      (''createdAt'', PStr ''2024-01-01T10:00:00''), (''updatedAt'', PStr ''2024-01-01T10:00:00''),
      (''userId'', PStr ''u1''), (''title'', PStr ''hello'')]"

definition example_message :: doc where
  "example_message =
     [(''id'', PStr ''m1''), (''type'', PStr ''message''), (''userId'', PStr ''u1''),
      (''createdAt'', PStr ''2024-01-01T10:00:01''), (''updatedAt'', PStr ''2024-01-01T10:00:01''),
      (''conversationId'', PStr ''c1''), (''role'', PStr ''user''), (''content'', PStr ''hi'')]"

definition example_store :: store where
  "example_store =
     \<lparr>items = [((PStr ''u1'', PStr ''c1''), example_conversation),
               ((PStr ''u1'', PStr ''m1''), example_message)],
      sent = []\<rparr>"

definition empty_store :: store where
  "empty_store = \<lparr>items = [], sent = []\<rparr>"

definition example_input :: doc where
  "example_input = [(''role'', PStr ''user''), (''content'', PStr ''again'')]"

text \<open>A directory of two pages, and one that answers 403.\<close>

definition example_directory :: http_get where
  "example_directory endpoint authorization =
     (if endpoint = graph_endpoint then
        Inr \<lparr>status_code = 200,
             json = Inr (PDict [(''@odata.nextLink'', PStr ''https://graph/page2''),
                                (''value'', PList [PDict [(''id'', PStr ''g1'')],
                                                   PDict [(''id'', PStr ''g2'')]])])\<rparr>
      else if endpoint = ''https://graph/page2'' then
        Inr \<lparr>status_code = 200,
             json = Inr (PDict [(''value'', PList [PDict [(''id'', PStr ''g3'')]])])\<rparr>
      else Inl RequestException)"


text \<open>Chat completions: one with a tool context, one whose context entry has no role.\<close>

definition example_completion :: chat_completion where
  "example_completion =
     \<lparr>id_attr = PStr ''chatcmpl-1'', model = PStr ''gpt-4'', created = PInt 1700000000,
      object_attr = PStr ''chat.completion'',
      choices = [\<lparr>message_attr = Some
        \<lparr>content_attr = PStr ''answer'',
         context_attr = Some (PDict [(''messages'',
           PList [PDict [(''role'', PStr ''tool''), (''content'', PStr ''citations'')]])])\<rparr>\<rparr>]\<rparr>"

definition malformed_completion :: chat_completion where
  "malformed_completion =
     \<lparr>id_attr = PStr ''chatcmpl-2'', model = PStr ''gpt-4'', created = PInt 1700000000,
      object_attr = PStr ''chat.completion'',
      choices = [\<lparr>message_attr = Some
        \<lparr>content_attr = PStr ''answer'',
         context_attr = Some (PDict [(''messages'',
           PList [PDict [(''content'', PStr ''citations'')]])])\<rparr>\<rparr>]\<rparr>"

definition example_dumps :: "pyval \<Rightarrow> string" where
  "example_dumps v = []"

text \<open>The documents that \<^const>\<open>message_doc\<close> builds for \<^const>\<open>example_input\<close> in the
  conversations \<open>c1\<close> (which \<^const>\<open>example_store\<close> holds) and \<open>c9\<close> (which it does not).\<close>

definition example_message_doc :: doc where
  "example_message_doc =
     [(''id'', PStr ''m2''), (''type'', PStr ''message''), (''userId'', PStr ''u1''),
      (''createdAt'', PStr ''2024-01-02T08:00:00''), (''updatedAt'', PStr ''2024-01-02T08:00:01''),
      (''conversationId'', PStr ''c1''), (''role'', PStr ''user''), (''content'', PStr ''again'')]"

definition orphan_message_doc :: doc where
  "orphan_message_doc =
     [(''id'', PStr ''m2''), (''type'', PStr ''message''), (''userId'', PStr ''u1''),
      (''createdAt'', PStr ''2024-01-02T08:00:00''), (''updatedAt'', PStr ''2024-01-02T08:00:01''),
      (''conversationId'', PStr ''c9''), (''role'', PStr ''user''), (''content'', PStr ''again'')]"

text \<open>The document that \<^const>\<open>message_doc\<close> builds when the caller passes the id of the
  conversation \<open>c1\<close> as the id of the message.\<close>

definition colliding_message_doc :: doc where
  "colliding_message_doc =
     [(''id'', PStr ''c1''), (''type'', PStr ''message''), (''userId'', PStr ''u1''),
      (''createdAt'', PStr ''2024-01-02T08:00:00''), (''updatedAt'', PStr ''2024-01-02T08:00:01''),
      (''conversationId'', PStr ''c1''), (''role'', PStr ''user''), (''content'', PStr ''again'')]"

section \<open>Splitting column lists\<close>

lemma split_not_Nil: "split sep s \<noteq> []"
  by (induction s) (auto split: list.splits)

lemma join_Cons: "segs \<noteq> [] \<Longrightarrow> join sep (seg # segs) = seg @ sep @ join sep segs"
  by (cases segs) auto

lemma join_split: "join [sep] (split sep s) = s"
proof (induction s)
  case Nil
  show ?case by simp
next
  case (Cons c cs)
  obtain seg segs where sp: "split sep cs = seg # segs"
    using split_not_Nil [of sep cs] by (cases "split sep cs") auto
  show ?case
  proof (cases "c = sep")
    case True
    then show ?thesis using Cons.IH sp by (simp add: join_Cons)
  next
    case False
    then show ?thesis using Cons.IH sp by (cases segs) auto
  qed
qed

lemma split_no_sep: "seg \<in> set (split sep s) \<Longrightarrow> sep \<notin> set seg"
  by (induction s arbitrary: seg) (auto split: list.splits if_splits)

text \<open>
  C9.  \<^const>\<open>parse_multi_columns\<close> splits on the bar alone when the input has a bar, and on
  the comma otherwise.  The result is never empty, its segments joined by the chosen
  separator give the input back, and no segment contains the chosen separator; so, with
  a bar in the input, the commas stay inside the segments.
\<close>

theorem parse_multi_columns_split:
  "parse_multi_columns s = split (chosen_separator s) s
   \<and> (chosen_separator s = CHR ''|'') = (CHR ''|'' \<in> set s)
   \<and> (chosen_separator s = CHR '','') = (CHR ''|'' \<notin> set s)
   \<and> parse_multi_columns s \<noteq> []
   \<and> join [chosen_separator s] (parse_multi_columns s) = s
   \<and> list_all (\<lambda>seg. chosen_separator s \<notin> set seg) (parse_multi_columns s)"
  by (auto simp: parse_multi_columns_def chosen_separator_def split_not_Nil join_split
      list_all_iff dest: split_no_sep)

theorem parse_multi_columns_split_witness:
  "parse_multi_columns ''a,b|c,d'' = [''a,b'', ''c,d'']
   \<and> parse_multi_columns ''a,b'' = [''a'', ''b'']
   \<and> join ''|'' (parse_multi_columns ''a,b|c,d'') = ''a,b|c,d''"
  using parse_multi_columns_split [of "''a,b|c,d''"] parse_multi_columns_split [of "''a,b''"]
  by (simp add: parse_multi_columns_def chosen_separator_def)

section \<open>Group pages\<close>

text \<open>
  C7.  When the directory serves a chain of pages linked by \<^verbatim>\<open>@odata.nextLink\<close>, and the
  chain is no longer than the recursion may go deep, \<^const>\<open>fetchUserGroups\<close> returns the
  \<^verbatim>\<open>value\<close> lists of all the pages concatenated in page order.
\<close>

theorem fetchUserGroups_concat:
  "serves get userToken nextLink vss \<Longrightarrow> length vss \<le> depth
   \<Longrightarrow> fetchUserGroups depth get userToken nextLink = PList (concat vss)"
proof (induction vss arbitrary: depth nextLink)
  case Nil
  then show ?case by simp
next
  case (Cons v vs)
  then obtain d where depth: "depth = Suc d" and len: "length vs \<le> d"
    by (cases depth) auto
  from Cons.prems(1) show ?case
    unfolding depth
    by (auto simp: page_groups_def getitem_def Cons.IH [OF _ len]
        split: pyval.splits sum.splits option.splits if_splits)
qed

theorem fetchUserGroups_concat_witness:
  "fetchUserGroups 2 example_directory ''token'' PNone
     = PList [PDict [(''id'', PStr ''g1'')], PDict [(''id'', PStr ''g2'')],
              PDict [(''id'', PStr ''g3'')]]"
proof -
  have s: "serves example_directory ''token'' PNone
             [[PDict [(''id'', PStr ''g1'')], PDict [(''id'', PStr ''g2'')]],
              [PDict [(''id'', PStr ''g3'')]]]"
    by (simp add: example_directory_def endpoint_of_def graph_endpoint_def)
  show ?thesis
    using fetchUserGroups_concat [OF s, of 2] by simp
qed




section \<open>The response envelope\<close>

lemma tool_messages_roles:
  "tool_messages ms = Inr out \<Longrightarrow> list_all (\<lambda>m. role_of m = Some (PStr ''tool'')) out"
  by (induction ms arbitrary: out)
     (auto simp: role_of_def getitem_def split: pyval.splits sum.splits option.splits if_splits)

lemma tool_messages_Cons_ok:
  "(\<exists>out. tool_messages (m # ms) = Inr out) = (entry_ok m \<and> (\<exists>out. tool_messages ms = Inr out))"
  by (cases m) (auto simp: entry_ok_def getitem_def split: sum.splits option.splits)

lemma tool_messages_ok:
  "(\<exists>out. tool_messages ms = Inr out) = list_all entry_ok ms"
proof (induction ms)
  case Nil
  show ?case by simp
next
  case (Cons m ms)
  show ?case
    unfolding tool_messages_Cons_ok using Cons.IH by simp
qed

lemma context_messages_roles:
  "context_messages dumps msg = Inr out \<Longrightarrow> list_all (\<lambda>m. role_of m = Some (PStr ''tool'')) out"
  by (auto simp: context_messages_def role_of_def Let_def dest: tool_messages_roles
      split: pyval.splits option.splits if_splits)

lemma context_messages_ok:
  "(\<exists>out. context_messages dumps msg = Inr out) = context_ok msg"
  using tool_messages_ok
  by (auto simp: context_messages_def context_ok_def Let_def
      split: pyval.splits option.splits if_splits)

text \<open>
  C2, as stated, fails: a chat completion with one choice and a non-null message, whose
  context lists an entry without a \<^verbatim>\<open>role\<close>, gets no envelope; \<^verbatim>\<open>m["role"]\<close> raises
  KeyError.
\<close>

theorem format_non_streaming_response_raises:
  "choices malformed_completion \<noteq> []
   \<and> message_attr (hd (choices malformed_completion)) \<noteq> None
   \<and> format_non_streaming_response example_dumps malformed_completion PNone PNone
       = Inl (KeyError ''role'')"
  by (simp add: format_non_streaming_response_def malformed_completion_def context_messages_def
      getitem_def)

text \<open>
  C2, amended.  For a chat completion whose choices are not empty and whose first choice
  has a non-null message, \<^const>\<open>format_non_streaming_response\<close> returns exactly when the
  message's context is readable (\<^const>\<open>context_ok\<close>: absent, or a dict whose
  \<^verbatim>\<open>messages\<close> entry is missing, falsy, or a list of dicts that each have a role and, for
  a tool, a content).  What it returns is the envelope with the six keys, whose choices
  hold one element whose messages are tool entries followed by the one assistant entry.
\<close>

theorem format_non_streaming_response_envelope:
  assumes "choices chatCompletion = c # cs" and "message_attr c = Some msg"
  shows "(context_ok msg \<longrightarrow>
            (\<exists>r. format_non_streaming_response dumps chatCompletion history_metadata message_uuid
                   = Inr r))
       \<and> (\<forall>r. format_non_streaming_response dumps chatCompletion history_metadata message_uuid
                 = Inr r
            \<longrightarrow> envelope_ok r \<and> context_ok msg)"
proof -
  have ok: "context_ok msg \<Longrightarrow> \<exists>out. context_messages dumps msg = Inr out"
    using context_messages_ok [of dumps msg] by simp
  have ko: "\<And>out. context_messages dumps msg = Inr out \<Longrightarrow> context_ok msg"
    using context_messages_ok [of dumps msg] by blast
  show ?thesis
    using assms ok ko
    by (auto simp: format_non_streaming_response_def envelope_ok_def role_of_def
        dest: context_messages_roles split: sum.splits)
qed

theorem format_non_streaming_response_envelope_witness:
  "format_non_streaming_response example_dumps example_completion (PStr ''history'') PNone
     = Inr (PDict
        [(''id'', PStr ''chatcmpl-1''), (''model'', PStr ''gpt-4''),
         (''created'', PInt 1700000000), (''object'', PStr ''chat.completion''),
         (''choices'', PList [PDict [(''messages'', PList
            [PDict [(''role'', PStr ''tool''), (''content'', PStr ''citations'')],
             PDict [(''role'', PStr ''assistant''), (''content'', PStr ''answer'')]])]]),
         (''history_metadata'', PStr ''history'')])
   \<and> envelope_ok (PDict
        [(''id'', PStr ''chatcmpl-1''), (''model'', PStr ''gpt-4''),
         (''created'', PInt 1700000000), (''object'', PStr ''chat.completion''),
         (''choices'', PList [PDict [(''messages'', PList
            [PDict [(''role'', PStr ''tool''), (''content'', PStr ''citations'')],
             PDict [(''role'', PStr ''assistant''), (''content'', PStr ''answer'')]])]]),
         (''history_metadata'', PStr ''history'')])"
proof -
  have c: "choices example_completion = hd (choices example_completion) # []"
    by (simp add: example_completion_def)
  have m: "message_attr (hd (choices example_completion))
             = Some \<lparr>content_attr = PStr ''answer'',
                     context_attr = Some (PDict [(''messages'',
                       PList [PDict [(''role'', PStr ''tool''), (''content'', PStr ''citations'')]])])\<rparr>"
    by (simp add: example_completion_def)
  have r: "format_non_streaming_response example_dumps example_completion (PStr ''history'') PNone
     = Inr (PDict
        [(''id'', PStr ''chatcmpl-1''), (''model'', PStr ''gpt-4''),
         (''created'', PInt 1700000000), (''object'', PStr ''chat.completion''),
         (''choices'', PList [PDict [(''messages'', PList
            [PDict [(''role'', PStr ''tool''), (''content'', PStr ''citations'')],
             PDict [(''role'', PStr ''assistant''), (''content'', PStr ''answer'')]])]]),
         (''history_metadata'', PStr ''history'')])"
    by (simp add: format_non_streaming_response_def example_completion_def context_messages_def
        getitem_def)
  from format_non_streaming_response_envelope [OF c m, of example_dumps "PStr ''history''" PNone] r
  show ?thesis by simp
qed

section \<open>The history service on the store\<close>

lemma client_simps [simp]:
  "container_client (client eng fb) = cosmos eng"
  "enable_message_feedback (client eng fb) = fb"
  by (simp_all add: client_def)

lemma cosmos_simps [simp]:
  "read_item (cosmos eng) = store_read_item"
  "upsert_item (cosmos eng) = store_upsert_item"
  "delete_item (cosmos eng) = store_delete_item"
  "query_items (cosmos eng) = store_query_items eng"
  by (simp_all add: cosmos_def)

text \<open>
  C6.  \<^const>\<open>get_messages\<close> sends one query, on any container: the text selects by
  \<^verbatim>\<open>c.conversationId = @conversationId\<close>, \<^verbatim>\<open>c.type='message'\<close> and
  \<^verbatim>\<open>c.userId = @userId\<close>, ordered by \<^verbatim>\<open>c.timestamp ASC\<close>, and the two parameters are
  bound to the given conversation id and user id.  On the store it is the request recorded.
\<close>

theorem get_messages_query_sent:
  "get_messages self user_id conversation_id s =
     query_items (container_client self)
       ''SELECT * FROM c WHERE c.conversationId = @conversationId AND c.type='message' AND c.userId = @userId ORDER BY c.timestamp ASC''
       [(''@conversationId'', conversation_id), (''@userId'', user_id)] s
   \<and> sent (snd (get_messages (client eng fb) user_id conversation_id w)) =
       sent w @ [QueryItems
         ''SELECT * FROM c WHERE c.conversationId = @conversationId AND c.type='message' AND c.userId = @userId ORDER BY c.timestamp ASC''
         [(''@conversationId'', conversation_id), (''@userId'', user_id)]]"
  by (simp add: get_messages_def get_messages_query_def store_query_items_def Let_def)

theorem get_messages_query_sent_witness:
  "sent (snd (get_messages (client lookup_engine False) (PStr ''u1'') (PStr ''c1'') empty_store)) =
     [QueryItems
        ''SELECT * FROM c WHERE c.conversationId = @conversationId AND c.type='message' AND c.userId = @userId ORDER BY c.timestamp ASC''
        [(''@conversationId'', PStr ''c1''), (''@userId'', PStr ''u1'')]]"
  using get_messages_query_sent [of "client lookup_engine False" "PStr ''u1''" "PStr ''c1''"
          empty_store lookup_engine False empty_store]
  by (simp add: empty_store_def store_query_items_def)

text \<open>
  C5.  \<^const>\<open>get_conversations\<close> sends one query, on any container, with \<^verbatim>\<open>@userId\<close>
  bound to the given user id.  Its text selects by \<^verbatim>\<open>c.userId = @userId\<close> and
  \<^verbatim>\<open>c.type='conversation'\<close>, orders by \<^verbatim>\<open>c.updatedAt\<close> in the given sort order, and
  ends with the clause \<^verbatim>\<open>offset {offset} limit {limit}\<close> when a limit is given; the text
  has such a suffix after the sort order exactly when the limit is not None.
\<close>

theorem get_conversations_query_sent:
  "get_conversations self user_id limit sort_order offset s =
     query_items (container_client self)
       (''SELECT * FROM c where c.userId = @userId and c.type='conversation' order by c.updatedAt ''
          @ sort_order
          @ (case limit of None \<Rightarrow> [] | Some l \<Rightarrow> '' offset '' @ str_int offset @ '' limit '' @ str_int l))
       [(''@userId'', user_id)] s
   \<and> sent (snd (get_conversations (client eng fb) user_id limit sort_order offset w)) =
     sent w @ [QueryItems
       (''SELECT * FROM c where c.userId = @userId and c.type='conversation' order by c.updatedAt ''
          @ sort_order
          @ (case limit of None \<Rightarrow> [] | Some l \<Rightarrow> '' offset '' @ str_int offset @ '' limit '' @ str_int l))
       [(''@userId'', user_id)]]
   \<and> ((case limit of None \<Rightarrow> [] | Some l \<Rightarrow> '' offset '' @ str_int offset @ '' limit '' @ str_int l) \<noteq> [])
       = (limit \<noteq> None)"
  by (cases limit)
     (simp_all add: get_conversations_def get_conversations_base_def offset_limit_clause_def
        store_query_items_def Let_def)

theorem get_conversations_query_sent_witness:
  "sent (snd (get_conversations (client lookup_engine False) (PStr ''u1'') (Some 25) ''DESC'' 0 empty_store)) =
     [QueryItems ''SELECT * FROM c where c.userId = @userId and c.type='conversation' order by c.updatedAt DESC offset 0 limit 25''
        [(''@userId'', PStr ''u1'')]]
   \<and> sent (snd (get_conversations (client lookup_engine False) (PStr ''u1'') None ''ASC'' 0 empty_store)) =
     [QueryItems ''SELECT * FROM c where c.userId = @userId and c.type='conversation' order by c.updatedAt ASC''
        [(''@userId'', PStr ''u1'')]]"
  using get_conversations_query_sent [of "client lookup_engine False" "PStr ''u1''" "Some 25" "''DESC''" 0
          empty_store lookup_engine False empty_store]
        get_conversations_query_sent [of "client lookup_engine False" "PStr ''u1''" None "''ASC''" 0
          empty_store lookup_engine False empty_store]
  by (simp add: empty_store_def str_int_def str_nat.simps digit_def store_query_items_def)

text \<open>
  C4.  The document that \<^const>\<open>create_conversation\<close> builds has exactly the fields id (the
  UUID string drawn), type (the literal conversation), createdAt and updatedAt (the two
  clock readings), userId (the given user id) and title (the given title).  It is the
  document sent to the store in an upsert, stored under (user id, id), and returned.
\<close>

theorem create_conversation_document:
  "conversation_doc uuid4 now1 now2 user_id title =
     [(''id'', PStr uuid4), (''type'', PStr ''conversation''), (''createdAt'', PStr now1),
      (''updatedAt'', PStr now2), (''userId'', user_id), (''title'', title)]
   \<and> fst (create_conversation (client eng fb) uuid4 now1 now2 user_id title w) =
       Inr (PDict (conversation_doc uuid4 now1 now2 user_id title))
   \<and> sent (snd (create_conversation (client eng fb) uuid4 now1 now2 user_id title w)) =
       sent w @ [UpsertItem (conversation_doc uuid4 now1 now2 user_id title)]
   \<and> map_of (items (snd (create_conversation (client eng fb) uuid4 now1 now2 user_id title w)))
        (user_id, PStr uuid4) = Some (conversation_doc uuid4 now1 now2 user_id title)"
  by (simp add: create_conversation_def conversation_doc_def store_upsert_item_def doc_key_def
      resp_or_False_def update_conv' Let_def)

theorem create_conversation_document_witness:
  "map_of (items (snd (create_conversation (client lookup_engine False) ''c2''
       ''2024-01-03T09:00:00'' ''2024-01-03T09:00:01'' (PStr ''u1'') (PStr ''hello'') empty_store)))
     (PStr ''u1'', PStr ''c2'')
     = Some [(''id'', PStr ''c2''), (''type'', PStr ''conversation''),
             (''createdAt'', PStr ''2024-01-03T09:00:00''),
             (''updatedAt'', PStr ''2024-01-03T09:00:01''),
             (''userId'', PStr ''u1''), (''title'', PStr ''hello'')]"
  using create_conversation_document [of "''c2''" "''2024-01-03T09:00:00''"
          "''2024-01-03T09:00:01''" "PStr ''u1''" "PStr ''hello''" lookup_engine False empty_store]
  by simp

text \<open>
  C1, as stated, fails: in a store that holds a conversation and one message of it,
  \<^const>\<open>delete_conversation\<close> succeeds and the message is still there.
\<close>

theorem delete_conversation_keeps_messages:
  "conversation_messages (PStr ''c1'')
     (map snd (items (snd (delete_conversation (client lookup_engine False) (PStr ''u1'') (PStr ''c1'')
        example_store)))) = [example_message]
   \<and> fst (delete_conversation (client lookup_engine False) (PStr ''u1'') (PStr ''c1'') example_store)
       = Inr PNone"
  by (simp add: delete_conversation_def store_read_item_def store_delete_item_def
      example_store_def example_conversation_def example_message_def conversation_messages_def
      Let_def)

lemma items_delete_conversation:
  "items (snd (delete_conversation (client eng fb) user_id conversation_id w)) = items w
   \<or> items (snd (delete_conversation (client eng fb) user_id conversation_id w))
       = AList.delete (user_id, conversation_id) (items w)"
  by (auto simp: delete_conversation_def store_read_item_def store_delete_item_def Let_def
      split: option.splits)

text \<open>
  C1, amended.  \<^const>\<open>delete_conversation\<close> deletes the one document addressed by the
  conversation id in the user's partition: every document under another key, so every
  message of the conversation, stays in the store as it was; and when the conversation
  document exists, the call succeeds and that document is gone.
\<close>

theorem delete_conversation_only_conversation:
  "(\<forall>k. k \<noteq> (user_id, conversation_id) \<longrightarrow>
        map_of (items (snd (delete_conversation (client eng fb) user_id conversation_id w))) k
          = map_of (items w) k)
   \<and> (\<forall>d. map_of (items w) (user_id, conversation_id) = Some d \<and> d \<noteq> [] \<longrightarrow>
        fst (delete_conversation (client eng fb) user_id conversation_id w) = Inr PNone \<and>
        map_of (items (snd (delete_conversation (client eng fb) user_id conversation_id w)))
          (user_id, conversation_id) = None)"
proof -
  have frame: "\<forall>k. k \<noteq> (user_id, conversation_id) \<longrightarrow>
        map_of (items (snd (delete_conversation (client eng fb) user_id conversation_id w))) k
          = map_of (items w) k"
    using items_delete_conversation [of eng fb user_id conversation_id w]
    by (auto simp: delete_conv')
  have gone: "\<forall>d. map_of (items w) (user_id, conversation_id) = Some d \<and> d \<noteq> [] \<longrightarrow>
        fst (delete_conversation (client eng fb) user_id conversation_id w) = Inr PNone \<and>
        map_of (items (snd (delete_conversation (client eng fb) user_id conversation_id w)))
          (user_id, conversation_id) = None"
    by (auto simp: delete_conversation_def store_read_item_def store_delete_item_def Let_def
        delete_conv')
  from frame gone show ?thesis by blast
qed

theorem delete_conversation_only_conversation_witness:
  "map_of (items (snd (delete_conversation (client lookup_engine False) (PStr ''u1'') (PStr ''c1'')
      example_store))) (PStr ''u1'', PStr ''m1'') = Some example_message
   \<and> map_of (items (snd (delete_conversation (client lookup_engine False) (PStr ''u1'') (PStr ''c1'')
      example_store))) (PStr ''u1'', PStr ''c1'') = None"
  using delete_conversation_only_conversation [of "PStr ''u1''" "PStr ''c1''" lookup_engine False example_store]
  by (simp add: example_store_def example_conversation_def)

section \<open>Inserting a message\<close>

lemma message_doc_fields:
  assumes "message_doc fb now1 now2 uuid conversation_id user_id input_message = Inr message"
  shows "doc_key message = Some (user_id, uuid)"
    and "getitem message ''createdAt'' = Inr (PStr now1)"
    and "message \<noteq> []"
  using assms
  by (auto simp: message_doc_def doc_key_def getitem_def setitem_def Let_def update_conv'
      split: sum.splits option.splits if_splits)

lemma store_upsert_message:
  assumes "doc_key message = Some k"
  shows "store_upsert_item message w =
           (Inr message, w\<lparr>sent := sent w @ [UpsertItem message],
                           items := AList.update k message (items w)\<rparr>)"
  using assms by (simp add: store_upsert_item_def Let_def)

lemma get_conversation_items:
  "items (snd (get_conversation (client eng fb) user_id conversation_id w)) = items w"
  by (auto simp: get_conversation_def store_query_items_def Let_def split: sum.splits list.splits)

lemma message_doc_createdAt:
  "message_doc fb now1 now2 uuid conversation_id user_id input_message = Inr message
   \<Longrightarrow> map_of message ''createdAt'' = Some (PStr now1)"
  by (auto simp: message_doc_def setitem_def Let_def update_conv'
      split: sum.splits if_splits)

lemma create_message_found:
  assumes doc: "message_doc (enable_message_feedback self) now1 now2 uuid conversation_id user_id
                  input_message = Inr message"
    and up: "upsert_item (container_client self) message s = (Inr resp, s1)"
    and ok: "truthy (PDict resp)"
    and found: "get_conversation self user_id conversation_id s1 = (Inr (Some conversation), s2)"
    and ne: "truthy (PDict conversation)"
  shows "create_message self now1 now2 uuid conversation_id user_id input_message s
           = (case upsert_item (container_client self)
                     (setitem ''updatedAt'' (PStr now1) conversation) s2 of
                (Inl e, s3) \<Rightarrow> (Inl e, s3)
              | (Inr r, s3) \<Rightarrow> (Inr (PDict resp), s3))"
  using doc up ok found ne message_doc_createdAt [OF doc]
  by (auto simp: create_message_def upsert_conversation_def getitem_def
      split: prod.splits sum.splits)

lemma point_query_head:
  assumes "list_all (\<lambda>kd. doc_key (snd kd) = Some (fst kd)) xs"
    and "map_of xs k = Some c"
    and "P c"
    and "\<And>d. P d \<Longrightarrow> doc_key d = Some k"
  shows "\<exists>rest. filter P (map snd xs) = c # rest"
  using assms(1,2)
proof (induction xs)
  case Nil
  then show ?case by simp
next
  case (Cons x xs)
  show ?case
  proof (cases "fst x = k")
    case True
    with Cons.prems assms(3) show ?thesis by (cases x) auto
  next
    case False
    with Cons.prems have "\<not> P (snd x)"
      using assms(4) [of "snd x"] by auto
    with False Cons show ?thesis by (cases x) auto
  qed
qed

lemma keyed_update:
  "list_all (\<lambda>kd. doc_key (snd kd) = Some (fst kd)) xs \<Longrightarrow> doc_key d = Some k
   \<Longrightarrow> list_all (\<lambda>kd. doc_key (snd kd) = Some (fst kd)) (AList.update k d xs)"
  by (induction xs) auto

lemma get_conversation_existing:
  assumes inv: "list_all (\<lambda>kd. doc_key (snd kd) = Some (fst kd)) (items w)"
    and stored: "map_of (items w) (user_id, conversation_id) = Some conversation"
    and type: "map_of conversation ''type'' = Some (PStr ''conversation'')"
  shows "get_conversation (client lookup_engine fb) user_id conversation_id w
           = (Inr (Some conversation),
              w\<lparr>sent := sent w @ [QueryItems get_conversation_query
                    [(''@conversationId'', conversation_id), (''@userId'', user_id)]]\<rparr>)"
proof -
  let ?P = "\<lambda>d. map_of d ''id'' = Some conversation_id \<and>
                 map_of d ''type'' = Some (PStr ''conversation'') \<and>
                 map_of d ''userId'' = Some user_id"
  have key: "doc_key conversation = Some (user_id, conversation_id)"
    using inv stored by (auto simp: list_all_iff dest!: map_of_SomeD)
  then have pc: "?P conversation"
    using type by (auto simp: doc_key_def split: option.splits)
  have pk: "\<And>d. ?P d \<Longrightarrow> doc_key d = Some (user_id, conversation_id)"
    by (simp add: doc_key_def)
  obtain rest where "filter ?P (map snd (items w)) = conversation # rest"
    using point_query_head [of "items w" "(user_id, conversation_id)" conversation ?P, OF inv stored pc pk]
    by blast
  then show ?thesis
    by (simp add: get_conversation_def store_query_items_def lookup_engine_def Let_def)
qed

text \<open>
  C3, as stated, fails: the caller supplies the id of the message, and both kinds of
  document live under (\<^verbatim>\<open>userId\<close>, \<^verbatim>\<open>id\<close>) in the one container.  With the id of
  the conversation as the id of the message, the parent exists at the call, the message
  upsert succeeds and replaces it, the lookup finds no conversation, and the call ends
  with \<^verbatim>\<open>Conversation not found\<close>: no conversation document is upserted.
\<close>

theorem create_message_overwrites_conversation:
  "map_of (items example_store) (PStr ''u1'', PStr ''c1'') = Some example_conversation
   \<and> message_doc False ''2024-01-02T08:00:00'' ''2024-01-02T08:00:01'' (PStr ''c1'') (PStr ''c1'')
        (PStr ''u1'') example_input = Inr colliding_message_doc
   \<and> fst (upsert_item (cosmos lookup_engine) colliding_message_doc example_store)
       = Inr colliding_message_doc
   \<and> create_message (client lookup_engine False) ''2024-01-02T08:00:00'' ''2024-01-02T08:00:01''
        (PStr ''c1'') (PStr ''c1'') (PStr ''u1'') example_input example_store
       = (Inr (PStr ''Conversation not found''),
          \<lparr>items = [((PStr ''u1'', PStr ''c1''), colliding_message_doc),
                    ((PStr ''u1'', PStr ''m1''), example_message)],
           sent = [UpsertItem colliding_message_doc,
                   QueryItems get_conversation_query
                     [(''@conversationId'', PStr ''c1''), (''@userId'', PStr ''u1'')]]\<rparr>)"
  by (simp add: create_message_def message_doc_def get_conversation_def store_query_items_def
      store_upsert_item_def doc_key_def lookup_engine_def example_store_def example_input_def
      example_conversation_def example_message_def colliding_message_doc_def getitem_def Let_def)

text \<open>
  C3, amended.  In a store that keeps every document under its own key and answers the
  point query of \<^const>\<open>get_conversation\<close>: when the parent conversation document exists
  and the id of the message is not the id of the conversation, \<^const>\<open>create_message\<close>
  upserts the message, looks the parent up, and upserts it again with \<^verbatim>\<open>updatedAt\<close>
  set to the createdAt of the new message.  Every other field of the conversation
  document is as it was, its keys keep their order, and the call returns the response
  of the message upsert.
\<close>

theorem create_message_bumps_conversation:
  assumes doc: "message_doc fb now1 now2 uuid conversation_id user_id input_message = Inr message"
    and inv: "keyed_by_id w"
    and stored: "map_of (items w) (user_id, conversation_id) = Some conversation"
    and type: "map_of conversation ''type'' = Some (PStr ''conversation'')"
    and other: "uuid \<noteq> conversation_id"
  shows "fst (create_message (client lookup_engine fb) now1 now2 uuid conversation_id user_id
                input_message w) = Inr (PDict message)
       \<and> map_of message ''createdAt'' = Some (PStr now1)
       \<and> sent (snd (create_message (client lookup_engine fb) now1 now2 uuid conversation_id user_id
                input_message w))
           = sent w @ [UpsertItem message,
                       QueryItems get_conversation_query
                         [(''@conversationId'', conversation_id), (''@userId'', user_id)],
                       UpsertItem (setitem ''updatedAt'' (PStr now1) conversation)]
       \<and> map_of (items (snd (create_message (client lookup_engine fb) now1 now2 uuid
                conversation_id user_id input_message w))) (user_id, conversation_id)
           = Some (setitem ''updatedAt'' (PStr now1) conversation)
       \<and> map_of (setitem ''updatedAt'' (PStr now1) conversation) ''updatedAt'' = Some (PStr now1)
       \<and> (\<forall>k. k \<noteq> ''updatedAt'' \<longrightarrow>
             map_of (setitem ''updatedAt'' (PStr now1) conversation) k = map_of conversation k)
       \<and> (''updatedAt'' \<in> fst ` set conversation \<longrightarrow>
             map fst (setitem ''updatedAt'' (PStr now1) conversation) = map fst conversation)"
proof -
  let ?self = "client lookup_engine fb"
  let ?c = "setitem ''updatedAt'' (PStr now1) conversation"
  let ?q = "QueryItems get_conversation_query
              [(''@conversationId'', conversation_id), (''@userId'', user_id)]"
  let ?w1 = "w\<lparr>sent := sent w @ [UpsertItem message],
                items := AList.update (user_id, uuid) message (items w)\<rparr>"
  let ?w2 = "?w1\<lparr>sent := sent ?w1 @ [?q]\<rparr>"
  note f = message_doc_fields [OF doc]
  have doc': "message_doc (enable_message_feedback ?self) now1 now2 uuid conversation_id user_id
                input_message = Inr message"
    using doc by simp
  have up: "upsert_item (container_client ?self) message w = (Inr message, ?w1)"
    using store_upsert_message [OF f(1), of w] by simp
  have ok: "truthy (PDict message)"
    using f(3) by simp
  have inv1: "list_all (\<lambda>kd. doc_key (snd kd) = Some (fst kd)) (items ?w1)"
    using inv f(1) by (simp add: keyed_by_id_def keyed_update)
  have stored1: "map_of (items ?w1) (user_id, conversation_id) = Some conversation"
    using stored other by (simp add: update_conv')
  have found: "get_conversation ?self user_id conversation_id ?w1 = (Inr (Some conversation), ?w2)"
    using get_conversation_existing [OF inv1 stored1 type, of fb] by simp
  have key: "doc_key conversation = Some (user_id, conversation_id)"
    using inv stored by (auto simp: keyed_by_id_def list_all_iff dest!: map_of_SomeD)
  have ne: "truthy (PDict conversation)"
    using type by auto
  have keyc: "doc_key ?c = Some (user_id, conversation_id)"
    using key by (simp add: doc_key_def setitem_def update_conv')
  have cm: "create_message ?self now1 now2 uuid conversation_id user_id input_message w
              = (Inr (PDict message),
                 ?w2\<lparr>sent := sent ?w2 @ [UpsertItem ?c],
                      items := AList.update (user_id, conversation_id) ?c (items ?w2)\<rparr>)"
    using create_message_found [OF doc' up ok found ne] keyc
    by (simp add: store_upsert_item_def Let_def)
  have upd: "map_of ?c ''updatedAt'' = Some (PStr now1)"
    by (simp add: setitem_def update_conv')
  have frame: "\<forall>k. k \<noteq> ''updatedAt'' \<longrightarrow> map_of ?c k = map_of conversation k"
    by (simp add: setitem_def update_conv')
  have keys: "''updatedAt'' \<in> fst ` set conversation \<longrightarrow> map fst ?c = map fst conversation"
    by (simp add: setitem_def update_keys)
  have created: "map_of message ''createdAt'' = Some (PStr now1)"
    using doc by (rule message_doc_createdAt)
  show ?thesis
    unfolding cm using created upd frame keys by (simp add: update_conv')
qed

theorem create_message_bumps_conversation_witness:
  "fst (create_message (client lookup_engine False) ''2024-01-02T08:00:00''
       ''2024-01-02T08:00:01'' (PStr ''m2'') (PStr ''c1'') (PStr ''u1'') example_input
       example_store) = Inr (PDict example_message_doc)
   \<and> map_of (items (snd (create_message (client lookup_engine False) ''2024-01-02T08:00:00''
       ''2024-01-02T08:00:01'' (PStr ''m2'') (PStr ''c1'') (PStr ''u1'') example_input
       example_store))) (PStr ''u1'', PStr ''c1'')
     = Some [(''id'', PStr ''c1''), (''type'', PStr ''conversation''),
             (''createdAt'', PStr ''2024-01-01T10:00:00''),
             (''updatedAt'', PStr ''2024-01-02T08:00:00''),
             (''userId'', PStr ''u1''), (''title'', PStr ''hello'')]"
proof -
  have doc: "message_doc False ''2024-01-02T08:00:00'' ''2024-01-02T08:00:01'' (PStr ''m2'')
               (PStr ''c1'') (PStr ''u1'') example_input = Inr example_message_doc"
    by (simp add: message_doc_def example_input_def example_message_doc_def getitem_def)
  have inv: "keyed_by_id example_store"
    by (simp add: keyed_by_id_def example_store_def example_conversation_def example_message_def
        doc_key_def)
  have stored: "map_of (items example_store) (PStr ''u1'', PStr ''c1'') = Some example_conversation"
    by (simp add: example_store_def)
  have type: "map_of example_conversation ''type'' = Some (PStr ''conversation'')"
    by (simp add: example_conversation_def)
  have other: "PStr ''m2'' \<noteq> PStr ''c1''"
    by simp
  from create_message_bumps_conversation [OF doc inv stored type other]
  show ?thesis
    by (simp add: setitem_def example_conversation_def)
qed

text \<open>
  C10.  \<^const>\<open>create_message\<close> is not atomic on error: when the message is upserted and
  \<^const>\<open>get_conversation\<close> then finds no conversation (none, or a falsy one), the call
  returns the string \<^verbatim>\<open>Conversation not found\<close> and the store is as the upsert left
  it, holding the message document under (user id, message id).
\<close>

theorem create_message_not_found:
  assumes doc: "message_doc fb now1 now2 uuid conversation_id user_id input_message = Inr message"
    and w1: "w1 = snd (upsert_item (cosmos eng) message w)"
    and found: "fst (get_conversation (client eng fb) user_id conversation_id w1) = Inr found"
    and none: "found = None \<or> found = Some []"
  shows "fst (upsert_item (cosmos eng) message w) = Inr message
       \<and> fst (create_message (client eng fb) now1 now2 uuid conversation_id user_id input_message w)
           = Inr (PStr ''Conversation not found'')
       \<and> items (snd (create_message (client eng fb) now1 now2 uuid conversation_id user_id
                       input_message w)) = items w1
       \<and> map_of (items (snd (create_message (client eng fb) now1 now2 uuid conversation_id user_id
                       input_message w))) (user_id, uuid) = Some message"
proof -
  note f = message_doc_fields [OF doc]
  have up: "store_upsert_item message w = (Inr message, w1)"
    using store_upsert_message [OF f(1), of w] w1 by simp
  obtain w2 where g: "get_conversation (client eng fb) user_id conversation_id w1 = (Inr found, w2)"
    using found by (cases "get_conversation (client eng fb) user_id conversation_id w1") auto
  have i2: "items w2 = items w1"
    using get_conversation_items [of eng fb user_id conversation_id w1] g by simp
  have i1: "map_of (items w1) (user_id, uuid) = Some message"
    using store_upsert_message [OF f(1), of w] w1 by (simp add: update_conv')
  have r: "create_message (client eng fb) now1 now2 uuid conversation_id user_id input_message w
             = (Inr (PStr ''Conversation not found''), w2)"
    using none doc up g f(3) by (auto simp: create_message_def)
  show ?thesis using r up i1 i2 by simp
qed

theorem create_message_not_found_witness:
  "fst (create_message (client lookup_engine False) ''2024-01-02T08:00:00''
       ''2024-01-02T08:00:01'' (PStr ''m2'') (PStr ''c9'') (PStr ''u1'') example_input
       example_store) = Inr (PStr ''Conversation not found'')
   \<and> map_of (items (snd (create_message (client lookup_engine False) ''2024-01-02T08:00:00''
       ''2024-01-02T08:00:01'' (PStr ''m2'') (PStr ''c9'') (PStr ''u1'') example_input
       example_store))) (PStr ''u1'', PStr ''m2'') = Some orphan_message_doc"
proof -
  let ?w1 = "snd (upsert_item (cosmos lookup_engine) orphan_message_doc example_store)"
  have doc: "message_doc False ''2024-01-02T08:00:00'' ''2024-01-02T08:00:01'' (PStr ''m2'')
               (PStr ''c9'') (PStr ''u1'') example_input = Inr orphan_message_doc"
    by (simp add: message_doc_def example_input_def orphan_message_doc_def getitem_def)
  have found: "fst (get_conversation (client lookup_engine False) (PStr ''u1'') (PStr ''c9'') ?w1)
                 = Inr None"
    by (simp add: get_conversation_def store_query_items_def store_upsert_item_def doc_key_def
        lookup_engine_def example_store_def example_conversation_def example_message_def
        orphan_message_doc_def Let_def)
  have none: "(None :: doc option) = None \<or> (None :: doc option) = Some []"
    by simp
  from create_message_not_found [OF doc refl found none] show ?thesis
    by blast
qed

end
